theory Spec2Isabelle
  imports Complex_Main "HOL-Library.Sublist" "HOL-Library.List_Lexorder" "HOL-Library.Char_ord"
begin

section \<open>Exceptions, paths and the outside world\<close>

text \<open>
  The scripts are glue around three SDK clients (identity, object storage, browser
  sessions), the local file system and the terminal. None of those is code of the
  repository, so every one of them is a parameter of the model: an environment \<open>env\<close>
  answers each external operation from an abstract world \<open>'w\<close> and returns the next
  world. The model itself keeps the trace of what the program did.

  Python exceptions are values. \<open>ClientError c\<close> is botocore's \<open>ClientError\<close> with
  \<open>e.response['Error']['Code'] = c\<close>; \<open>OtherException\<close> is any other subclass of
  \<open>Exception\<close>; \<open>KeyboardInterrupt\<close> derives from \<open>BaseException\<close> only, so an
  \<open>except Exception\<close> clause does not catch it.
\<close>

datatype exn = ClientError string | OtherException string | KeyboardInterrupt

fun is_Exception :: "exn \<Rightarrow> bool" where
  "is_Exception KeyboardInterrupt = False"
| "is_Exception _ = True"

text \<open>A \<open>pathlib.Path\<close> is the list of its components; \<open>.name\<close> is the last one.\<close>

type_synonym path = "string list"

definition path_name :: "path \<Rightarrow> string" where
  "path_name p = (if p = [] then [] else last p)"

record object_meta =
  content_length :: nat
  last_modified :: string

text \<open>The network operations the program can issue, with their arguments.\<close>

datatype api_call =
    GetCallerIdentity
  | GetSessionToken int
  | HeadBucket string
  | CreateBucket string "string option"
  | UploadFile path string string
  | HeadObject string string
  | ListObjectsV2 string string
  | DeleteObject string string
  | StartBrowserSession string string nat "(string \<times> string) list"
  | StopBrowserSession string

datatype stage =
  CheckPrerequisites | PrepareExtension | UploadToS3 | CreateBrowser | TestExtension | Cleanup

record identity =
  Account :: string
  Arn :: string

record sts_credentials =
  AccessKeyId :: string
  SecretAccessKey :: string
  SessionToken :: string
  Expiration :: string

text \<open>A directory tree as \<open>os.walk\<close> sees it: files (name, content) and directories.\<close>

datatype node = File string string | Dir string "node list"

text \<open>
  The trace: every network call in the order it is attempted, every subprocess started,
  the two console lines that carry a size (in MB, the value handed to the formatter), and
  a marker each time the orchestrator enters one of its stages or its cleanup.
\<close>

datatype event =
    Net api_call
  | Run "string list"
  | UploadingMB rat
  | ObjectSizeMB rat
  | Enter stage

record 'w st =
  trace :: "event list"
  world :: "'w"

text \<open>The storage client (\<open>boto3.client('s3')\<close>).\<close>

record 'w s3_client =
  head_bucket :: "string \<Rightarrow> 'w \<Rightarrow> (exn + unit) \<times> 'w"
  create_bucket_api :: "string \<Rightarrow> string option \<Rightarrow> 'w \<Rightarrow> (exn + unit) \<times> 'w"
  upload_file :: "path \<Rightarrow> string \<Rightarrow> string \<Rightarrow> 'w \<Rightarrow> (exn + unit) \<times> 'w"
  head_object :: "string \<Rightarrow> string \<Rightarrow> 'w \<Rightarrow> (exn + object_meta) \<times> 'w"
  list_objects_v2 :: "string \<Rightarrow> string \<Rightarrow> 'w \<Rightarrow> (exn + string list option) \<times> 'w"
  delete_object :: "string \<Rightarrow> string \<Rightarrow> 'w \<Rightarrow> (exn + unit) \<times> 'w"

text \<open>The identity client (\<open>boto3.client('sts')\<close>).\<close>

record 'w sts_client =
  get_caller_identity :: "'w \<Rightarrow> (exn + identity) \<times> 'w"
  get_session_token :: "int \<Rightarrow> 'w \<Rightarrow> (exn + sts_credentials) \<times> 'w"

text \<open>The browser-session client (\<open>boto3.client('bedrock-agentcore')\<close>):
  \<open>start_browser_session browserIdentifier name sessionTimeoutSeconds extensions\<close> answers
  with the \<open>sessionId\<close>.\<close>

record 'w agentcore_client =
  start_browser_session ::
    "string \<Rightarrow> string \<Rightarrow> nat \<Rightarrow> (string \<times> string) list \<Rightarrow> 'w \<Rightarrow> (exn + string) \<times> 'w"
  stop_browser_session :: "string \<Rightarrow> 'w \<Rightarrow> (exn + unit) \<times> 'w"

text \<open>The machine the script runs on: file system, processes, clock, terminal, process
  environment, and the construction of SDK clients (which can fail before any request).\<close>

record 'w host_ops =
  path_exists :: "path \<Rightarrow> 'w \<Rightarrow> bool"
  is_file :: "path \<Rightarrow> 'w \<Rightarrow> bool"
  is_dir :: "path \<Rightarrow> 'w \<Rightarrow> bool"
  stat_size :: "path \<Rightarrow> 'w \<Rightarrow> exn + nat"
  mkdtemp :: "string \<Rightarrow> 'w \<Rightarrow> (exn + path) \<times> 'w"
  extractall :: "path \<Rightarrow> path \<Rightarrow> 'w \<Rightarrow> (exn + unit) \<times> 'w"
  copytree :: "path \<Rightarrow> path \<Rightarrow> 'w \<Rightarrow> (exn + unit) \<times> 'w"
  read_manifest :: "path \<Rightarrow> 'w \<Rightarrow> exn + unit"
  read_text :: "path \<Rightarrow> 'w \<Rightarrow> exn + string"
  write_text :: "path \<Rightarrow> string \<Rightarrow> 'w \<Rightarrow> (exn + unit) \<times> 'w"
  walk_tree :: "path \<Rightarrow> 'w \<Rightarrow> node list"
  write_zip :: "path \<Rightarrow> (path \<times> string) list \<Rightarrow> 'w \<Rightarrow> (exn + unit) \<times> 'w"
  subprocess_run :: "string list \<Rightarrow> path option \<Rightarrow> 'w \<Rightarrow> (exn + unit) \<times> 'w"
  time_time :: "'w \<Rightarrow> int"
  getenv :: "string \<Rightarrow> 'w \<Rightarrow> string option"
  boto3_client :: "string \<Rightarrow> 'w \<Rightarrow> exn + unit"
  confirm_ask :: "'w \<Rightarrow> (exn + bool) \<times> 'w"
  input_line :: "'w \<Rightarrow> (exn + unit) \<times> 'w"

record 'w env =
  s3_client :: "'w s3_client"
  sts_client :: "'w sts_client"
  agentcore_client :: "'w agentcore_client"
  host :: "'w host_ops"

definition log :: "event \<Rightarrow> 'w st \<Rightarrow> 'w st" where
  "log e s = s\<lparr>trace := trace s @ [e]\<rparr>"

text \<open>A network call is recorded when it is attempted, whatever the service answers.\<close>

definition net :: "api_call \<Rightarrow> ('w \<Rightarrow> 'r \<times> 'w) \<Rightarrow> 'w st \<Rightarrow> 'r \<times> 'w st" where
  "net c f s = (fst (f (world s)), s\<lparr>trace := trace s @ [Net c], world := snd (f (world s))\<rparr>)"

text \<open>A local operation changes the world and leaves the trace alone.\<close>

definition local_op :: "('w \<Rightarrow> 'r \<times> 'w) \<Rightarrow> 'w st \<Rightarrow> 'r \<times> 'w st" where
  "local_op f s = (fst (f (world s)), s\<lparr>world := snd (f (world s))\<rparr>)"

definition size_mb :: "nat \<Rightarrow> rat" where
  "size_mb n = of_nat n / 1024 / 1024"

definition startswith :: "string \<Rightarrow> string \<Rightarrow> bool" where
  "startswith s pre = prefix pre s"


text \<open>\<open>a or b\<close> on an optional string: \<open>None\<close> and the empty string are falsy.\<close>

definition str_or :: "string option \<Rightarrow> string \<Rightarrow> string" where
  "str_or a b = (case a of None \<Rightarrow> b | Some x \<Rightarrow> if x = [] then b else x)"

text \<open>\<open>os.environ.get(name, default)\<close>.\<close>

definition environ_get :: "'w env \<Rightarrow> string \<Rightarrow> string \<Rightarrow> 'w \<Rightarrow> string" where
  "environ_get env name dflt w = (case getenv (host env) name w of None \<Rightarrow> dflt | Some v \<Rightarrow> v)"

section \<open>s3_manager.py\<close>

record s3_manager =
  bucket_name :: string
  region :: string

text \<open>\<open>S3Manager.bucket_exists\<close>: 404 is "no", 403 is "yes, but not yours", anything else
  is re-raised.\<close>

definition bucket_exists :: "'w env \<Rightarrow> s3_manager \<Rightarrow> 'w st \<Rightarrow> (exn + bool) \<times> 'w st" where
  "bucket_exists c m s =
     (case net (HeadBucket (bucket_name m)) (head_bucket (s3_client c) (bucket_name m)) s of
        (Inr _, s1) \<Rightarrow> (Inr True, s1)
      | (Inl (ClientError error_code), s1) \<Rightarrow>
          if error_code = ''404'' then (Inr False, s1)
          else if error_code = ''403'' then (Inr True, s1)
          else (Inl (ClientError error_code), s1)
      | (Inl e, s1) \<Rightarrow> (Inl e, s1))"

definition create_bucket :: "'w env \<Rightarrow> s3_manager \<Rightarrow> 'w st \<Rightarrow> (exn + bool) \<times> 'w st" where
  "create_bucket c m s =
     (case bucket_exists c m s of
        (Inl e, s1) \<Rightarrow> (Inl e, s1)
      | (Inr True, s1) \<Rightarrow> (Inr True, s1)
      | (Inr False, s1) \<Rightarrow>
          (let loc = (if region m = ''us-east-1'' then None else Some (region m)) in
           case net (CreateBucket (bucket_name m) loc) (create_bucket_api (s3_client c) (bucket_name m) loc) s1 of
             (Inr _, s2) \<Rightarrow> (Inr True, s2)
           | (Inl (ClientError error_code), s2) \<Rightarrow>
               if error_code = ''BucketAlreadyOwnedByYou'' then (Inr True, s2)
               else if error_code = ''BucketAlreadyExists'' then (Inr False, s2)
               else (Inl (ClientError error_code), s2)
           | (Inl e, s2) \<Rightarrow> (Inl e, s2)))"

definition s3_uri_of :: "string \<Rightarrow> string \<Rightarrow> string" where
  "s3_uri_of bucket key = ''s3://'' @ bucket @ ''/'' @ key"

text \<open>\<open>S3Manager.upload_extension\<close>. Its \<open>except Exception\<close> clause prints and re-raises,
  so every exception of the body leaves the function unchanged.\<close>

definition upload_extension ::
  "'w env \<Rightarrow> s3_manager \<Rightarrow> path \<Rightarrow> string option \<Rightarrow> 'w st \<Rightarrow> (exn + string) \<times> 'w st" where
  "upload_extension c m extension_path key_opt s =
     (let key = (case key_opt of None \<Rightarrow> ''extensions/'' @ path_name extension_path | Some k \<Rightarrow> k) in
      case stat_size (host c) extension_path (world s) of
        Inl e \<Rightarrow> (Inl e, s)
      | Inr st_size \<Rightarrow>
          (case net (UploadFile extension_path (bucket_name m) key)
                    (upload_file (s3_client c) extension_path (bucket_name m) key)
                    (log (UploadingMB (size_mb st_size)) s) of
             (Inl e, s1) \<Rightarrow> (Inl e, s1)
           | (Inr _, s1) \<Rightarrow> (Inr (s3_uri_of (bucket_name m) key), s1)))"

text \<open>\<open>str.split('/', 1)\<close> on the part after the scheme: the text before the first
  slash, and the text after it (empty when there is no slash).\<close>

definition split_bucket_key :: "string \<Rightarrow> string \<times> string" where
  "split_bucket_key rest =
     (takeWhile (\<lambda>ch. ch \<noteq> CHR ''/'') rest, drop 1 (dropWhile (\<lambda>ch. ch \<noteq> CHR ''/'') rest))"

text \<open>\<open>S3Manager.verify_access\<close>: only \<open>ClientError\<close> is caught.\<close>

definition verify_access :: "'w env \<Rightarrow> string \<Rightarrow> 'w st \<Rightarrow> (exn + bool) \<times> 'w st" where
  "verify_access c s3_uri s =
     (if \<not> startswith s3_uri ''s3://'' then (Inr False, s)
      else
        (case split_bucket_key (drop 5 s3_uri) of
           (bucket, key) \<Rightarrow>
             (case net (HeadObject bucket key) (head_object (s3_client c) bucket key) s of
                (Inr response, s1) \<Rightarrow>
                  (Inr True, log (ObjectSizeMB (size_mb (content_length response))) s1)
              | (Inl (ClientError error_code), s1) \<Rightarrow> (Inr False, s1)
              | (Inl e, s1) \<Rightarrow> (Inl e, s1))))"

text \<open>\<open>S3Manager.setup_and_upload\<close>: \<open>None\<close> is the failure value. The \<open>try\<close> around the
  upload catches \<open>Exception\<close> only.\<close>

definition setup_and_upload ::
  "'w env \<Rightarrow> s3_manager \<Rightarrow> path \<Rightarrow> 'w st \<Rightarrow> (exn + string option) \<times> 'w st" where
  "setup_and_upload c m extension_path s =
     (case create_bucket c m s of
        (Inl e, s1) \<Rightarrow> (Inl e, s1)
      | (Inr False, s1) \<Rightarrow> (Inr None, s1)
      | (Inr True, s1) \<Rightarrow>
          (case upload_extension c m extension_path None s1 of
             (Inl e, s2) \<Rightarrow> (if is_Exception e then (Inr None, s2) else (Inl e, s2))
           | (Inr s3_uri, s2) \<Rightarrow>
               (case verify_access c s3_uri s2 of
                  (Inl e, s3) \<Rightarrow> (Inl e, s3)
                | (Inr _, s3) \<Rightarrow> (Inr (Some s3_uri), s3))))"

text \<open>\<open>S3Manager.__init__\<close>.\<close>

definition S3Manager_init ::
  "'w env \<Rightarrow> string \<Rightarrow> string option \<Rightarrow> 'w st \<Rightarrow> (exn + s3_manager) \<times> 'w st" where
  "S3Manager_init env bucket region_opt s =
     (let m = \<lparr>bucket_name = bucket,
                region = str_or region_opt (environ_get env ''AWS_REGION'' ''us-east-1'' (world s))\<rparr> in
      case boto3_client (host env) ''s3'' (world s) of
        Inl e \<Rightarrow> (Inl e, s)
      | Inr _ \<Rightarrow> (Inr m, s))"

text \<open>\<open>S3Manager.list_extensions\<close>: a \<open>ClientError\<close> gives the empty list.\<close>

definition list_extensions :: "'w env \<Rightarrow> s3_manager \<Rightarrow> 'w st \<Rightarrow> (exn + string list) \<times> 'w st" where
  "list_extensions c m s =
     (case net (ListObjectsV2 (bucket_name m) ''extensions/'')
               (list_objects_v2 (s3_client c) (bucket_name m) ''extensions/'') s of
        (Inr None, s1) \<Rightarrow> (Inr [], s1)
      | (Inr (Some keys), s1) \<Rightarrow> (Inr keys, s1)
      | (Inl (ClientError error_code), s1) \<Rightarrow> (Inr [], s1)
      | (Inl e, s1) \<Rightarrow> (Inl e, s1))"

text \<open>The deletion loop of \<open>cleanup_old_extensions\<close>: an \<open>Exception\<close> on one key is
  printed and the loop goes on.\<close>

fun delete_keys :: "'w env \<Rightarrow> s3_manager \<Rightarrow> string list \<Rightarrow> 'w st \<Rightarrow> (exn + unit) \<times> 'w st" where
  "delete_keys c m [] s = (Inr (), s)"
| "delete_keys c m (key # keys) s =
     (case net (DeleteObject (bucket_name m) key) (delete_object (s3_client c) (bucket_name m) key) s of
        (Inl e, s1) \<Rightarrow> (if is_Exception e then delete_keys c m keys s1 else (Inl e, s1))
      | (Inr _, s1) \<Rightarrow> delete_keys c m keys s1)"

definition cleanup_old_extensions ::
  "'w env \<Rightarrow> s3_manager \<Rightarrow> nat \<Rightarrow> 'w st \<Rightarrow> (exn + unit) \<times> 'w st" where
  "cleanup_old_extensions c m keep_latest s =
     (case list_extensions c m s of
        (Inl e, s1) \<Rightarrow> (Inl e, s1)
      | (Inr extensions, s1) \<Rightarrow>
          if length extensions \<le> keep_latest then (Inr (), s1)
          else delete_keys c m (drop keep_latest (rev (sort extensions))) s1)"

section \<open>browser_with_extension.py\<close>

record session_info =
  info_session_id :: string
  info_session_name :: string
  info_region :: string

record browser_obj =
  browser_region :: string
  browser_session :: "session_info option"
  session_id :: "string option"

record session_details =
  details_session_id :: string
  details_region :: string
  details_extensions :: "string list"
  details_status :: string

text \<open>Decimal rendering of \<open>int(time.time())\<close> inside an f-string.\<close>

function digits :: "int \<Rightarrow> string" where
  "digits n =
     (if n < 10 then [''0123456789'' ! nat n]
      else digits (n div 10) @ [''0123456789'' ! nat (n mod 10)])"
  by pat_completeness auto
termination
  by (relation "measure nat") auto

declare digits.simps [simp del]

definition str_int :: "int \<Rightarrow> string" where
  "str_int i = (if i < 0 then ''-'' @ digits (- i) else digits i)"

text \<open>\<open>BrowserWithExtension.__init__\<close>.\<close>

definition BrowserWithExtension_init ::
  "'w env \<Rightarrow> string option \<Rightarrow> 'w st \<Rightarrow> (exn + browser_obj) \<times> 'w st" where
  "BrowserWithExtension_init env region_opt s =
     (let r = str_or region_opt (environ_get env ''AWS_REGION'' ''us-east-1'' (world s)) in
      case boto3_client (host env) ''bedrock-agentcore'' (world s) of
        Inl e \<Rightarrow> (Inl e, s)
      | Inr _ \<Rightarrow> (Inr \<lparr>browser_region = r, browser_session = None, session_id = None\<rparr>, s))"

text \<open>The first loop of \<open>create_browser_session\<close>: a locator with the scheme prefix
  becomes a (bucket, prefix) pair; for any other locator the loop body does nothing.\<close>

fun parse_extensions :: "string list \<Rightarrow> (string \<times> string) list" where
  "parse_extensions [] = []"
| "parse_extensions (uri # uris) =
     (if startswith uri ''s3://'' then split_bucket_key (drop 5 uri) # parse_extensions uris
      else parse_extensions uris)"

text \<open>\<open>BrowserWithExtension.create_browser_session\<close>. Its \<open>except Exception\<close> clause
  prints and re-raises; the two fields are assigned only after the call has answered.\<close>

definition create_browser_session ::
  "'w env \<Rightarrow> browser_obj \<Rightarrow> string list \<Rightarrow> string option \<Rightarrow> 'w st
     \<Rightarrow> (exn + session_details) \<times> browser_obj \<times> 'w st" where
  "create_browser_session env self extension_s3_uris session_name_opt s =
     (let extensions = parse_extensions extension_s3_uris;
          session_name =
            (case session_name_opt of
               None \<Rightarrow> ''extension-demo-'' @ str_int (time_time (host env) (world s))
             | Some n \<Rightarrow> if n = [] then ''extension-demo-'' @ str_int (time_time (host env) (world s))
                         else n)
      in case net (StartBrowserSession ''aws.browser.v1'' session_name 1800 extensions)
                  (start_browser_session (agentcore_client env) ''aws.browser.v1'' session_name 1800 extensions) s of
           (Inl e, s1) \<Rightarrow> (Inl e, self, s1)
         | (Inr sid, s1) \<Rightarrow>
             (Inr \<lparr>details_session_id = sid, details_region = browser_region self,
                   details_extensions = extension_s3_uris, details_status = ''active''\<rparr>,
              self\<lparr>session_id := Some sid,
                   browser_session := Some \<lparr>info_session_id = sid, info_session_name = session_name,
                                            info_region = browser_region self\<rparr>\<rparr>,
              s1))"


definition test_extension_functionality :: "browser_obj \<Rightarrow> string \<Rightarrow> bool" where
  "test_extension_functionality self test_url = (browser_session self \<noteq> None)"

text \<open>The guard of \<open>close_session\<close>, \<open>self.browser_session and self.session_id\<close>: a
  session record is present and the identifier is a non-empty string.\<close>

definition session_active :: "browser_obj \<Rightarrow> bool" where
  "session_active self =
     (browser_session self \<noteq> None \<and> session_id self \<noteq> None \<and> session_id self \<noteq> Some [])"

text \<open>\<open>BrowserWithExtension.close_session\<close>: the fields are cleared only when the stop
  call succeeds; an \<open>Exception\<close> of the call is printed and swallowed.\<close>

definition close_session ::
  "'w env \<Rightarrow> browser_obj \<Rightarrow> 'w st \<Rightarrow> (exn + unit) \<times> browser_obj \<times> 'w st" where
  "close_session env self s =
     (if session_active self then
        (case net (StopBrowserSession (the (session_id self)))
                  (stop_browser_session (agentcore_client env) (the (session_id self))) s of
           (Inr _, s1) \<Rightarrow> (Inr (), self\<lparr>browser_session := None, session_id := None\<rparr>, s1)
         | (Inl e, s1) \<Rightarrow> (if is_Exception e then (Inr (), self, s1) else (Inl e, self, s1)))
      else (Inr (), self, s))"

text \<open>\<open>check_iam_permissions\<close>: the client is built and the caller's identity requested
  inside one \<open>try\<close>; any \<open>Exception\<close> gives \<open>False\<close>.\<close>

definition check_iam_permissions :: "'w env \<Rightarrow> 'w st \<Rightarrow> (exn + bool) \<times> 'w st" where
  "check_iam_permissions env s =
     (case boto3_client (host env) ''sts'' (world s) of
        Inl e \<Rightarrow> (if is_Exception e then (Inr False, s) else (Inl e, s))
      | Inr _ \<Rightarrow>
          (case net GetCallerIdentity (get_caller_identity (sts_client env)) s of
             (Inr ident, s1) \<Rightarrow> (Inr True, s1)
           | (Inl e, s1) \<Rightarrow> (if is_Exception e then (Inr False, s1) else (Inl e, s1))))"

section \<open>Packaging: the directory walk and the archive\<close>

text \<open>\<open>Path.relative_to(other)\<close>: the components below \<open>other\<close>; \<open>ValueError\<close>
  (here \<open>None\<close>) when the path is not under it.\<close>

definition relative_to :: "path \<Rightarrow> path \<Rightarrow> path option" where
  "relative_to p other = (if prefix other p then Some (drop (length other) p) else None)"

fun files_of :: "node list \<Rightarrow> (string \<times> string) list" where
  "files_of [] = []"
| "files_of (File n c # ns) = (n, c) # files_of ns"
| "files_of (Dir n ch # ns) = files_of ns"

text \<open>
  \<open>os.walk(top)\<close>, top-down: one (dirpath, files) pair for the directory itself, then the
  walk of each sub-directory in turn. \<open>keep\<close> is the pruning of \<open>dirs[:]\<close> that the loop
  body performs before the walk descends (\<open>\<lambda>d. True\<close> when the body leaves \<open>dirs\<close> alone).
\<close>

fun walk :: "(string \<Rightarrow> bool) \<Rightarrow> path \<Rightarrow> node list \<Rightarrow> (path \<times> (string \<times> string) list) list"
and walk_dirs :: "(string \<Rightarrow> bool) \<Rightarrow> path \<Rightarrow> node list \<Rightarrow> (path \<times> (string \<times> string) list) list"
where
  "walk keep dirpath ns = (dirpath, files_of ns) # walk_dirs keep dirpath ns"
| "walk_dirs keep dirpath [] = []"
| "walk_dirs keep dirpath (File n c # ns) = walk_dirs keep dirpath ns"
| "walk_dirs keep dirpath (Dir n ch # ns) =
     (if keep n then walk keep (dirpath @ [n]) ch else []) @ walk_dirs keep dirpath ns"

text \<open>The inner loop \<open>for file in files\<close>: a skipped file is passed over, any other is
  written under its path relative to the base directory.\<close>

fun add_files ::
  "(string \<Rightarrow> bool) \<Rightarrow> path \<Rightarrow> path \<Rightarrow> (string \<times> string) list \<Rightarrow> exn + (path \<times> string) list" where
  "add_files skip base dirpath [] = Inr []"
| "add_files skip base dirpath ((file, content) # files) =
     (if skip file then add_files skip base dirpath files
      else
        (case relative_to (dirpath @ [file]) base of
           None \<Rightarrow> Inl (OtherException ''ValueError'')
         | Some arcname \<Rightarrow>
             (case add_files skip base dirpath files of
                Inl e \<Rightarrow> Inl e
              | Inr rest \<Rightarrow> Inr ((arcname, content) # rest))))"

text \<open>The outer loop \<open>for root, dirs, files in os.walk(...)\<close>.\<close>

fun add_dirs ::
  "(string \<Rightarrow> bool) \<Rightarrow> path \<Rightarrow> (path \<times> (string \<times> string) list) list \<Rightarrow> exn + (path \<times> string) list" where
  "add_dirs skip base [] = Inr []"
| "add_dirs skip base ((dirpath, files) # later) =
     (case add_files skip base dirpath files of
        Inl e \<Rightarrow> Inl e
      | Inr here \<Rightarrow>
          (case add_dirs skip base later of
             Inl e \<Rightarrow> Inl e
           | Inr rest \<Rightarrow> Inr (here @ rest)))"

text \<open>What \<open>ExtensionSetup.package_extension\<close> writes for the tree \<open>ns\<close> found under
  \<open>extension_dir\<close>: no directory is pruned, no file is skipped.\<close>

definition setup_archive :: "path \<Rightarrow> node list \<Rightarrow> exn + (path \<times> string) list" where
  "setup_archive extension_dir ns =
     add_dirs (\<lambda>file. False) extension_dir (walk (\<lambda>d. True) extension_dir ns)"











text \<open>The files of a tree, by path from its top: the reference the archives are
  compared with. \<open>is_file_at ns p c\<close>: following the components of \<open>p\<close> through
  directories of \<open>ns\<close> ends at a file with content \<open>c\<close>.\<close>

fun is_file_at :: "node list \<Rightarrow> path \<Rightarrow> string \<Rightarrow> bool" where
  "is_file_at ns [] c = False"
| "is_file_at ns [n] c = (File n c \<in> set ns)"
| "is_file_at ns (n # p) c =
     list_ex (\<lambda>nd. case nd of Dir m ch \<Rightarrow> m = n \<and> is_file_at ch p c | File _ _ \<Rightarrow> False) ns"


section \<open>setup_extension.py\<close>

record extension_setup =
  work_dir :: path
  extension_dir :: path

text \<open>\<open>str(path)\<close> and \<open>Path.suffix\<close> (the part of the name from its last dot, when that
  dot is neither the first nor the last character).\<close>

definition path_str :: "path \<Rightarrow> string" where
  "path_str p = (case p of [] \<Rightarrow> ''.'' | c # cs \<Rightarrow> c @ concat (map (\<lambda>x. ''/'' @ x) cs))"

definition path_suffix :: "path \<Rightarrow> string" where
  "path_suffix p =
     (let name = path_name p;
          t = length (takeWhile (\<lambda>ch. ch \<noteq> CHR ''.'') (rev name))
      in if CHR ''.'' \<in> set name \<and> 0 < length name - 1 - t \<and> 0 < t
         then drop (length name - 1 - t) name else [])"

text \<open>\<open>ExtensionSetup.__init__\<close>.\<close>

definition ExtensionSetup_init ::
  "'w env \<Rightarrow> path option \<Rightarrow> 'w st \<Rightarrow> (exn + extension_setup) \<times> 'w st" where
  "ExtensionSetup_init env work_dir_opt s =
     (case (case work_dir_opt of
              Some p \<Rightarrow> (Inr p, s)
            | None \<Rightarrow> local_op (mkdtemp (host env) ''extension_'') s) of
        (Inl e, s1) \<Rightarrow> (Inl e, s1)
      | (Inr wd, s1) \<Rightarrow>
          (case boto3_client (host env) ''sts'' (world s1) of
             Inl e \<Rightarrow> (Inl e, s1)
           | Inr _ \<Rightarrow> (Inr \<lparr>work_dir = wd, extension_dir = wd @ [''extension'']\<rparr>, s1)))"

text \<open>\<open>ExtensionSetup.get_temporary_credentials\<close>: the returned dictionary, in the order
  of its keys. The \<open>except\<close> clause prints and re-raises.\<close>

definition get_temporary_credentials ::
  "'w env \<Rightarrow> int \<Rightarrow> 'w st \<Rightarrow> (exn + (string \<times> string) list) \<times> 'w st" where
  "get_temporary_credentials env duration_seconds s =
     (case net (GetSessionToken duration_seconds)
               (get_session_token (sts_client env) duration_seconds) s of
        (Inl e, s1) \<Rightarrow> (Inl e, s1)
      | (Inr credentials, s1) \<Rightarrow>
          (Inr [(''AccessKeyId'', AccessKeyId credentials),
                (''SecretAccessKey'', SecretAccessKey credentials),
                (''SessionToken'', SessionToken credentials)], s1))"

text \<open>A subprocess started with \<open>check=True\<close>: a non-zero exit is an exception.\<close>

definition run_process :: "'w env \<Rightarrow> string list \<Rightarrow> path option \<Rightarrow> 'w st \<Rightarrow> (exn + unit) \<times> 'w st" where
  "run_process env args cwd s = local_op (subprocess_run (host env) args cwd) (log (Run args) s)"

definition GITHUB_REPO :: string where
  "GITHUB_REPO = ''aws-samples/amazon-bedrock-summary-client-for-chrome''"

text \<open>\<open>ExtensionSetup.download_extension_from_github\<close>: both \<open>except\<close> clauses re-raise.\<close>

definition download_extension_from_github ::
  "'w env \<Rightarrow> extension_setup \<Rightarrow> 'w st \<Rightarrow> (exn + path) \<times> 'w st" where
  "download_extension_from_github env self s =
     (let repo_url = ''https://github.com/'' @ GITHUB_REPO @ ''.git'';
          clone_dir = work_dir self @ [''repo'']
      in case run_process env [''git'', ''clone'', ''--depth'', ''1'', repo_url, path_str clone_dir] None s of
           (Inl e, s1) \<Rightarrow> (Inl e, s1)
         | (Inr _, s1) \<Rightarrow>
        (case run_process env [''npm'', ''install''] (Some clone_dir) s1 of
           (Inl e, s2) \<Rightarrow> (Inl e, s2)
         | (Inr _, s2) \<Rightarrow>
        (case run_process env [''npm'', ''run'', ''build''] (Some clone_dir) s2 of
           (Inl e, s3) \<Rightarrow> (Inl e, s3)
         | (Inr _, s3) \<Rightarrow>
        (let build_dir = (if path_exists (host env) (clone_dir @ [''dist'']) (world s3)
                          then clone_dir @ [''dist''] else clone_dir)
         in case local_op (copytree (host env) build_dir (extension_dir self)) s3 of
              (Inl e, s4) \<Rightarrow> (Inl e, s4)
            | (Inr _, s4) \<Rightarrow> (Inr (extension_dir self), s4)))))"

text \<open>\<open>ExtensionSetup.use_existing_extension\<close>.\<close>

definition use_existing_extension ::
  "'w env \<Rightarrow> extension_setup \<Rightarrow> path \<Rightarrow> 'w st \<Rightarrow> (exn + path) \<times> 'w st" where
  "use_existing_extension env self extension_path s =
     (case (if is_file (host env) extension_path (world s) \<and> path_suffix extension_path = ''.zip''
            then local_op (extractall (host env) extension_path (extension_dir self)) s
            else if is_dir (host env) extension_path (world s)
            then local_op (copytree (host env) extension_path (extension_dir self)) s
            else (Inl (OtherException ''ValueError''), s)) of
        (Inl e, s1) \<Rightarrow> (Inl e, s1)
      | (Inr _, s1) \<Rightarrow> (Inr (extension_dir self), s1))"

text \<open>\<open>d[key]\<close> on a dictionary.\<close>

definition dict_item :: "(string \<times> string) list \<Rightarrow> string \<Rightarrow> exn + string" where
  "dict_item d key = (case map_of d key of None \<Rightarrow> Inl (OtherException ''KeyError'') | Some v \<Rightarrow> Inr v)"

definition nl :: string where
  "nl = [CHR 0x0A]"

definition sq :: string where
  "sq = [CHR 0x27]"

text \<open>The object literal both injected scripts share, from the three dictionary items.\<close>

definition credentials_object :: "(string \<times> string) list \<Rightarrow> exn + string" where
  "credentials_object credentials =
     (case dict_item credentials ''AccessKeyId'' of Inl e \<Rightarrow> Inl e | Inr a \<Rightarrow>
      case dict_item credentials ''SecretAccessKey'' of Inl e \<Rightarrow> Inl e | Inr k \<Rightarrow>
      case dict_item credentials ''SessionToken'' of Inl e \<Rightarrow> Inl e | Inr t \<Rightarrow>
        Inr (''(function() {'' @ nl @
             ''    const credentials = {'' @ nl @
             ''        accessKeyId: '' @ sq @ a @ sq @ '','' @ nl @
             ''        secretAccessKey: '' @ sq @ k @ sq @ '','' @ nl @
             ''        sessionToken: '' @ sq @ t @ sq @ nl @
             ''    };'' @ nl @
             ''    localStorage.setItem('' @ sq @ ''keys'' @ sq @ '', JSON.stringify(credentials));'' @ nl))"

definition credentials_injection :: "(string \<times> string) list \<Rightarrow> exn + string" where
  "credentials_injection credentials =
     (case credentials_object credentials of
        Inl e \<Rightarrow> Inl e
      | Inr obj \<Rightarrow>
          Inr (nl @ ''// Auto-injected AWS credentials'' @ nl @ obj @
               ''    console.log('' @ sq @ ''AWS credentials auto-configured'' @ sq @ '');'' @ nl @
               ''})();'' @ nl @ nl))"

definition credentials_script :: "(string \<times> string) list \<Rightarrow> exn + string" where
  "credentials_script credentials =
     (case credentials_object credentials of
        Inl e \<Rightarrow> Inl e
      | Inr obj \<Rightarrow>
          Inr (''<script>'' @ nl @ ''// Auto-configure AWS credentials'' @ nl @ obj @
               ''    console.log('' @ sq @ ''AWS credentials configured from popup.html'' @ sq @ '');'' @ nl @
               ''})();'' @ nl @ ''</script>'' @ nl))"

text \<open>\<open>str.replace(old, new)\<close>: every non-overlapping occurrence, left to right; with an
  empty \<open>old\<close>, \<open>new\<close> goes before every character and at the end.\<close>

function str_replace :: "string \<Rightarrow> string \<Rightarrow> string \<Rightarrow> string" where
  "str_replace old new s =
     (if old = [] then new @ concat (map (\<lambda>ch. ch # new) s)
      else if s = [] then []
      else if prefix old s then new @ str_replace old new (drop (length old) s)
      else hd s # str_replace old new (tl s))"
  by pat_completeness auto
termination
  by (relation "measure (\<lambda>(old, new, s). length s)") auto

declare str_replace.simps [simp del]

text \<open>One file rewritten in place: read, transform, write.\<close>

definition rewrite_file ::
  "'w env \<Rightarrow> path \<Rightarrow> (string \<Rightarrow> exn + string) \<Rightarrow> 'w st \<Rightarrow> (exn + unit) \<times> 'w st" where
  "rewrite_file env p f s =
     (case read_text (host env) p (world s) of
        Inl e \<Rightarrow> (Inl e, s)
      | Inr text \<Rightarrow>
          (case f text of
             Inl e \<Rightarrow> (Inl e, s)
           | Inr text' \<Rightarrow> local_op (write_text (host env) p text') s))"

text \<open>\<open>ExtensionSetup.configure_extension_credentials\<close>.\<close>

definition configure_extension_credentials ::
  "'w env \<Rightarrow> extension_setup \<Rightarrow> (string \<times> string) list \<Rightarrow> 'w st \<Rightarrow> (exn + unit) \<times> 'w st" where
  "configure_extension_credentials env self credentials s =
     (let manifest_path = extension_dir self @ [''manifest.json''];
          popup_js_path = extension_dir self @ [''popup.js''];
          popup_html_path = extension_dir self @ [''popup.html'']
      in if \<not> path_exists (host env) manifest_path (world s) then (Inr (), s)
         else
           (case read_manifest (host env) manifest_path (world s) of
              Inl e \<Rightarrow> (Inl e, s)
            | Inr _ \<Rightarrow>
           (case (if path_exists (host env) popup_js_path (world s)
                  then rewrite_file env popup_js_path
                         (\<lambda>popup_js. case credentials_injection credentials of
                                       Inl e \<Rightarrow> Inl e | Inr injection \<Rightarrow> Inr (injection @ popup_js)) s
                  else (Inr (), s)) of
              (Inl e, s1) \<Rightarrow> (Inl e, s1)
            | (Inr _, s1) \<Rightarrow>
                (if path_exists (host env) popup_html_path (world s1)
                 then rewrite_file env popup_html_path
                        (\<lambda>popup_html. case credentials_script credentials of
                                         Inl e \<Rightarrow> Inl e
                                       | Inr scr \<Rightarrow> Inr (str_replace ''<body>'' (''<body>'' @ nl @ scr) popup_html)) s1
                 else (Inr (), s1)))))"

text \<open>\<open>ExtensionSetup.package_extension\<close>: the archive gets what \<open>setup_archive\<close> computes
  from the tree found under \<open>extension_dir\<close> when the walk starts (the archive itself is
  written elsewhere: into the current directory, while \<open>extension_dir\<close> lies in a fresh
  temporary directory); the size of the result is then read.\<close>

definition setup_package_extension ::
  "'w env \<Rightarrow> extension_setup \<Rightarrow> path option \<Rightarrow> 'w st \<Rightarrow> (exn + path) \<times> 'w st" where
  "setup_package_extension env self output_path_opt s =
     (let output_path =
            (case output_path_opt of
               None \<Rightarrow> [''bedrock-summary-extension-'' @ str_int (time_time (host env) (world s)) @ ''.zip'']
             | Some p \<Rightarrow> p)
      in case setup_archive (extension_dir self) (walk_tree (host env) (extension_dir self) (world s)) of
           Inl e \<Rightarrow> (Inl e, s)
         | Inr entries \<Rightarrow>
             (case local_op (write_zip (host env) output_path entries) s of
                (Inl e, s1) \<Rightarrow> (Inl e, s1)
              | (Inr _, s1) \<Rightarrow>
                  (case stat_size (host env) output_path (world s1) of
                     Inl e \<Rightarrow> (Inl e, s1)
                   | Inr _ \<Rightarrow> (Inr output_path, s1))))"

text \<open>\<open>ExtensionSetup.prepare_extension\<close>. A \<open>Path\<close> is always truthy, so the download
  is taken only for \<open>None\<close>.\<close>

definition setup_prepare_extension ::
  "'w env \<Rightarrow> extension_setup \<Rightarrow> path option \<Rightarrow> bool \<Rightarrow> 'w st \<Rightarrow> (exn + path) \<times> 'w st" where
  "setup_prepare_extension env self existing_extension skip s =
     (case (case existing_extension of
              Some p \<Rightarrow> use_existing_extension env self p s
            | None \<Rightarrow> download_extension_from_github env self s) of
        (Inl e, s1) \<Rightarrow> (Inl e, s1)
      | (Inr _, s1) \<Rightarrow>
          (case (if \<not> skip then
                   (case get_temporary_credentials env 3600 s1 of
                      (Inl e, s2) \<Rightarrow> (Inl e, s2)
                    | (Inr credentials, s2) \<Rightarrow> configure_extension_credentials env self credentials s2)
                 else (Inr (), s1)) of
             (Inl e, s3) \<Rightarrow> (Inl e, s3)
           | (Inr _, s3) \<Rightarrow> setup_package_extension env self None s3))"

section \<open>main.py\<close>

record extension_demo =
  demo_bucket_name :: string
  demo_region :: string
  existing_extensions :: "path list"
  skip_credentials :: bool
  extension_zips :: "path list"
  s3_uris :: "string list"
  browser :: "browser_obj option"

definition DEFAULT_BUCKET :: string where
  "DEFAULT_BUCKET = ''browser-extension-demo-zihangh-20260129''"

text \<open>\<open>ExtensionDemo.__init__\<close>: no client is built and nothing is requested here.\<close>

definition ExtensionDemo_init ::
  "'w env \<Rightarrow> string option \<Rightarrow> string option \<Rightarrow> path list option \<Rightarrow> bool \<Rightarrow> 'w \<Rightarrow> extension_demo" where
  "ExtensionDemo_init env bucket_opt region_opt existing skip w =
     \<lparr>demo_bucket_name = str_or bucket_opt (environ_get env ''S3_BUCKET_NAME'' DEFAULT_BUCKET w),
      demo_region = str_or region_opt (environ_get env ''AWS_REGION'' ''us-east-1'' w),
      existing_extensions = (case existing of None \<Rightarrow> [] | Some xs \<Rightarrow> xs),
      skip_credentials = skip,
      extension_zips = [],
      s3_uris = [],
      browser = None\<rparr>"

text \<open>The loop of \<open>check_prerequisites\<close> over the given archives: the first one that
  does not exist ends the check.\<close>

fun all_exist :: "'w env \<Rightarrow> path list \<Rightarrow> 'w \<Rightarrow> bool" where
  "all_exist env [] w = True"
| "all_exist env (ext # exts) w = (if \<not> path_exists (host env) ext w then False else all_exist env exts w)"

text \<open>\<open>ExtensionDemo.check_prerequisites\<close>: the identity check comes first, the look at
  the list of archives last.\<close>

definition check_prerequisites :: "'w env \<Rightarrow> extension_demo \<Rightarrow> 'w st \<Rightarrow> (exn + bool) \<times> 'w st" where
  "check_prerequisites env self s =
     (case check_iam_permissions env (log (Enter CheckPrerequisites) s) of
        (Inl e, s1) \<Rightarrow> (Inl e, s1)
      | (Inr False, s1) \<Rightarrow> (Inr False, s1)
      | (Inr True, s1) \<Rightarrow>
          if existing_extensions self \<noteq> [] then (Inr (all_exist env (existing_extensions self) (world s1)), s1)
          else (Inr False, s1))"

text \<open>The loop of \<open>ExtensionDemo.prepare_extension\<close>: each archive gets a fresh
  \<open>ExtensionSetup\<close>; the zips prepared before an exception stay in the list.\<close>

fun prepare_each ::
  "'w env \<Rightarrow> path list \<Rightarrow> extension_demo \<Rightarrow> 'w st \<Rightarrow> (exn + unit) \<times> extension_demo \<times> 'w st" where
  "prepare_each env [] self s = (Inr (), self, s)"
| "prepare_each env (ext_path # exts) self s =
     (case ExtensionSetup_init env None s of
        (Inl e, s1) \<Rightarrow> (Inl e, self, s1)
      | (Inr setup, s1) \<Rightarrow>
          (case setup_prepare_extension env setup (Some ext_path) (skip_credentials self) s1 of
             (Inl e, s2) \<Rightarrow> (Inl e, self, s2)
           | (Inr extension_zip, s2) \<Rightarrow>
               prepare_each env exts (self\<lparr>extension_zips := extension_zips self @ [extension_zip]\<rparr>) s2))"

text \<open>A method body inside \<open>try: ... except Exception: return False\<close>.\<close>

definition except_False :: "(exn + bool) \<times> 'a \<times> 'b \<Rightarrow> (exn + bool) \<times> 'a \<times> 'b" where
  "except_False r =
     (case r of
        (Inl e, x, y) \<Rightarrow> (if is_Exception e then (Inr False, x, y) else (Inl e, x, y))
      | (Inr b, x, y) \<Rightarrow> (Inr b, x, y))"

definition demo_prepare_extension ::
  "'w env \<Rightarrow> extension_demo \<Rightarrow> 'w st \<Rightarrow> (exn + bool) \<times> extension_demo \<times> 'w st" where
  "demo_prepare_extension env self s =
     except_False
       (case prepare_each env (existing_extensions self) self (log (Enter PrepareExtension) s) of
          (Inl e, self1, s1) \<Rightarrow> (Inl e, self1, s1)
        | (Inr _, self1, s1) \<Rightarrow> (Inr True, self1, s1))"

text \<open>The loop of \<open>upload_to_s3\<close>: \<open>False\<close> is the early \<open>return False\<close> on a falsy URI
  (\<open>None\<close> or the empty string), \<open>True\<close> is the loop running to its end.\<close>

fun upload_each ::
  "'w env \<Rightarrow> s3_manager \<Rightarrow> path list \<Rightarrow> extension_demo \<Rightarrow> 'w st
     \<Rightarrow> (exn + bool) \<times> extension_demo \<times> 'w st" where
  "upload_each env manager [] self s = (Inr True, self, s)"
| "upload_each env manager (extension_zip # zips) self s =
     (case setup_and_upload env manager extension_zip s of
        (Inl e, s1) \<Rightarrow> (Inl e, self, s1)
      | (Inr None, s1) \<Rightarrow> (Inr False, self, s1)
      | (Inr (Some s3_uri), s1) \<Rightarrow>
          if s3_uri = [] then (Inr False, self, s1)
          else upload_each env manager zips (self\<lparr>s3_uris := s3_uris self @ [s3_uri]\<rparr>) s1)"

definition upload_to_s3 ::
  "'w env \<Rightarrow> extension_demo \<Rightarrow> 'w st \<Rightarrow> (exn + bool) \<times> extension_demo \<times> 'w st" where
  "upload_to_s3 env self s =
     except_False
       (case S3Manager_init env (demo_bucket_name self) (Some (demo_region self)) (log (Enter UploadToS3) s) of
          (Inl e, s1) \<Rightarrow> (Inl e, self, s1)
        | (Inr manager, s1) \<Rightarrow>
            (case upload_each env manager (extension_zips self) self s1 of
               (Inl e, self2, s2) \<Rightarrow> (Inl e, self2, s2)
             | (Inr False, self2, s2) \<Rightarrow> (Inr False, self2, s2)
             | (Inr True, self2, s2) \<Rightarrow>
                 (case local_op (confirm_ask (host env)) s2 of
                    (Inl e, s3) \<Rightarrow> (Inl e, self2, s3)
                  | (Inr False, s3) \<Rightarrow> (Inr True, self2, s3)
                  | (Inr True, s3) \<Rightarrow>
                      (case cleanup_old_extensions env manager 3 s3 of
                         (Inl e, s4) \<Rightarrow> (Inl e, self2, s4)
                       | (Inr _, s4) \<Rightarrow> (Inr True, self2, s4)))))"

text \<open>\<open>ExtensionDemo.create_browser\<close>: \<open>self.browser\<close> is assigned as soon as the object
  is built, before the session is requested.\<close>

definition create_browser ::
  "'w env \<Rightarrow> extension_demo \<Rightarrow> 'w st \<Rightarrow> (exn + bool) \<times> extension_demo \<times> 'w st" where
  "create_browser env self s =
     except_False
       (case BrowserWithExtension_init env (Some (demo_region self)) (log (Enter CreateBrowser) s) of
          (Inl e, s1) \<Rightarrow> (Inl e, self, s1)
        | (Inr b, s1) \<Rightarrow>
            (case create_browser_session env b (s3_uris self) None s1 of
               (Inl e, b2, s2) \<Rightarrow> (Inl e, self\<lparr>browser := Some b2\<rparr>, s2)
             | (Inr session, b2, s2) \<Rightarrow> (Inr True, self\<lparr>browser := Some b2\<rparr>, s2)))"

text \<open>\<open>ExtensionDemo.test_extension\<close>.\<close>

definition test_extension :: "extension_demo \<Rightarrow> 'w st \<Rightarrow> bool \<times> 'w st" where
  "test_extension self s =
     (case browser self of
        None \<Rightarrow> (False, log (Enter TestExtension) s)
      | Some b \<Rightarrow> (test_extension_functionality b ''https://aws.amazon.com'', log (Enter TestExtension) s))"

text \<open>\<open>ExtensionDemo.cleanup\<close>.\<close>

definition cleanup ::
  "'w env \<Rightarrow> extension_demo \<Rightarrow> 'w st \<Rightarrow> (exn + unit) \<times> extension_demo \<times> 'w st" where
  "cleanup env self s =
     (case browser self of
        None \<Rightarrow> (Inr (), self, log (Enter Cleanup) s)
      | Some b \<Rightarrow>
          (case close_session env b (log (Enter Cleanup) s) of
             (r, b1, s1) \<Rightarrow> (r, self\<lparr>browser := Some b1\<rparr>, s1)))"

text \<open>The body of the \<open>try\<close> in \<open>ExtensionDemo.run\<close>: the value is the exit code of a
  \<open>return\<close>, or the exception that leaves the body. The result of \<open>test_extension\<close> is
  not looked at; a \<open>KeyboardInterrupt\<close> at the final prompt is caught on the spot.\<close>

definition run_body ::
  "'w env \<Rightarrow> bool \<Rightarrow> extension_demo \<Rightarrow> 'w st \<Rightarrow> (exn + int) \<times> extension_demo \<times> 'w st" where
  "run_body env prepare_only self s =
     (case check_prerequisites env self s of
        (Inl e, s1) \<Rightarrow> (Inl e, self, s1)
      | (Inr False, s1) \<Rightarrow> (Inr 1, self, s1)
      | (Inr True, s1) \<Rightarrow>
     (case demo_prepare_extension env self s1 of
        (Inl e, self2, s2) \<Rightarrow> (Inl e, self2, s2)
      | (Inr False, self2, s2) \<Rightarrow> (Inr 1, self2, s2)
      | (Inr True, self2, s2) \<Rightarrow>
     (case upload_to_s3 env self2 s2 of
        (Inl e, self3, s3) \<Rightarrow> (Inl e, self3, s3)
      | (Inr False, self3, s3) \<Rightarrow> (Inr 1, self3, s3)
      | (Inr True, self3, s3) \<Rightarrow>
     (if prepare_only then (Inr 0, self3, s3)
      else
     (case create_browser env self3 s3 of
        (Inl e, self4, s4) \<Rightarrow> (Inl e, self4, s4)
      | (Inr False, self4, s4) \<Rightarrow> (Inr 1, self4, s4)
      | (Inr True, self4, s4) \<Rightarrow>
     (case local_op (input_line (host env)) (snd (test_extension self4 s4)) of
        (Inl KeyboardInterrupt, s6) \<Rightarrow> (Inr 0, self4, s6)
      | (Inl e, s6) \<Rightarrow> (Inl e, self4, s6)
      | (Inr _, s6) \<Rightarrow> (Inr 0, self4, s6)))))))"

text \<open>The two \<open>except\<close> clauses of \<open>run\<close>.\<close>

definition run_except :: "exn + int \<Rightarrow> int" where
  "run_except r = (case r of Inl KeyboardInterrupt \<Rightarrow> 130 | Inl e \<Rightarrow> 1 | Inr code \<Rightarrow> code)"

text \<open>\<open>ExtensionDemo.run\<close>: the \<open>finally\<close> clause runs \<open>cleanup\<close> on whatever state the
  body and its handlers left; an exception that escapes \<open>cleanup\<close> replaces the exit
  code.\<close>

definition run ::
  "'w env \<Rightarrow> bool \<Rightarrow> extension_demo \<Rightarrow> 'w st \<Rightarrow> (exn + int) \<times> extension_demo \<times> 'w st" where
  "run env prepare_only self s =
     (case run_body env prepare_only self s of
        (r, self1, s1) \<Rightarrow>
          (case cleanup env self1 s1 of
             (Inl e, self2, s2) \<Rightarrow> (Inl e, self2, s2)
           | (Inr _, self2, s2) \<Rightarrow> (Inr (run_except r), self2, s2)))"

text \<open>\<open>main\<close>: the parsed command line, the orchestrator built from it, and \<open>run\<close>,
  whose value goes to \<open>sys.exit\<close>.\<close>

record args =
  arg_bucket :: "string option"
  arg_region :: "string option"
  arg_extension_zips :: "path list option"
  arg_prepare_only :: bool
  arg_skip_credentials :: bool

definition main :: "'w env \<Rightarrow> args \<Rightarrow> 'w st \<Rightarrow> (exn + int) \<times> extension_demo \<times> 'w st" where
  "main env a s =
     run env (arg_prepare_only a)
       (ExtensionDemo_init env (arg_bucket a) (arg_region a) (arg_extension_zips a)
          (arg_skip_credentials a) (world s)) s"

section \<open>Notions used in the statements\<close>

text \<open>The \<open>LocationConstraint\<close> that \<open>create_bucket\<close> sends for a manager.\<close>

definition location_of :: "s3_manager \<Rightarrow> string option" where
  "location_of m = (if region m = ''us-east-1'' then None else Some (region m))"

text \<open>
  The storage service reports the manager's bucket as the caller's own: the existence
  check succeeds, or it answers 404 and the creation request is then refused with
  \<open>BucketAlreadyOwnedByYou\<close>.
\<close>

definition reported_as_owned :: "'w env \<Rightarrow> s3_manager \<Rightarrow> 'w \<Rightarrow> bool" where
  "reported_as_owned c m w =
     (fst (head_bucket (s3_client c) (bucket_name m) w) = Inr () \<or>
      (fst (head_bucket (s3_client c) (bucket_name m) w) = Inl (ClientError ''404'') \<and>
       fst (create_bucket_api (s3_client c) (bucket_name m) (location_of m)
              (snd (head_bucket (s3_client c) (bucket_name m) w)))
         = Inl (ClientError ''BucketAlreadyOwnedByYou'')))"





text \<open>The stages entered, in order, as a trace records them; the network calls of a
  trace.\<close>

fun entered :: "event list \<Rightarrow> stage list" where
  "entered [] = []"
| "entered (Enter st # es) = st # entered es"
| "entered (e # es) = entered es"

fun calls :: "event list \<Rightarrow> api_call list" where
  "calls [] = []"
| "calls (Net c # es) = c # calls es"
| "calls (e # es) = calls es"






section \<open>A simulated environment\<close>

text \<open>
  A small concrete world on which the model runs: buckets of the caller and of others,
  stored objects with their sizes, local files with their sizes, one directory tree, and
  the browser sessions that are open. It is used to run the definitions on concrete
  inputs; no general statement below depends on it.
\<close>

record sim_world =
  my_buckets :: "string list"
  foreign_buckets :: "string list"
  stored_objects :: "((string \<times> string) \<times> nat) list"
  local_files :: "(path \<times> nat) list"
  local_tree :: "node list"
  open_sessions :: "string list"

definition sim_s3 :: "sim_world s3_client" where
  "sim_s3 =
     \<lparr>head_bucket = (\<lambda>b w.
        (if b \<in> set (my_buckets w) then Inr ()
         else if b \<in> set (foreign_buckets w) then Inl (ClientError ''403'')
         else Inl (ClientError ''404''), w)),
      create_bucket_api = (\<lambda>b loc w.
        if b \<in> set (my_buckets w)
        then (if loc = None then Inr () else Inl (ClientError ''BucketAlreadyOwnedByYou''), w)
        else if b \<in> set (foreign_buckets w) then (Inl (ClientError ''BucketAlreadyExists''), w)
        else (Inr (), w\<lparr>my_buckets := b # my_buckets w\<rparr>)),
      upload_file = (\<lambda>p b k w.
        case map_of (local_files w) p of
          None \<Rightarrow> (Inl (OtherException ''FileNotFoundError''), w)
        | Some n \<Rightarrow>
            if b \<in> set (my_buckets w) then (Inr (), w\<lparr>stored_objects := ((b, k), n) # stored_objects w\<rparr>)
            else (Inl (OtherException ''S3UploadFailedError''), w)),
      head_object = (\<lambda>b k w.
        case map_of (stored_objects w) (b, k) of
          None \<Rightarrow> (Inl (ClientError ''404''), w)
        | Some n \<Rightarrow> (Inr \<lparr>content_length = n, last_modified = ''2026-01-29''\<rparr>, w)),
      list_objects_v2 = (\<lambda>b pre w.
        (Inr (case map (\<lambda>x. snd (fst x)) (filter (\<lambda>x. fst (fst x) = b \<and> prefix pre (snd (fst x))) (stored_objects w)) of
                [] \<Rightarrow> None | ks \<Rightarrow> Some ks), w)),
      delete_object = (\<lambda>b k w. (Inr (), w\<lparr>stored_objects := filter (\<lambda>x. fst x \<noteq> (b, k)) (stored_objects w)\<rparr>))\<rparr>"

definition sim_sts :: "sim_world sts_client" where
  "sim_sts =
     \<lparr>get_caller_identity = (\<lambda>w.
        (Inr \<lparr>Account = ''123456789012'', Arn = ''arn:aws:iam::123456789012:user/demo''\<rparr>, w)),
      get_session_token = (\<lambda>d w.
        (Inr \<lparr>AccessKeyId = ''ASIAEXAMPLE'', SecretAccessKey = ''secret'', SessionToken = ''token'',
               Expiration = ''2026-01-29T13:00:00Z''\<rparr>, w))\<rparr>"

definition sim_agentcore :: "sim_world agentcore_client" where
  "sim_agentcore =
     \<lparr>start_browser_session = (\<lambda>ident name timeout exts w.
        (Inr ''session-1'', w\<lparr>open_sessions := ''session-1'' # open_sessions w\<rparr>)),
      stop_browser_session = (\<lambda>sid w.
        if sid \<in> set (open_sessions w) then (Inr (), w\<lparr>open_sessions := removeAll sid (open_sessions w)\<rparr>)
        else (Inl (ClientError ''ResourceNotFoundException''), w))\<rparr>"

definition sim_host :: "sim_world host_ops" where
  "sim_host =
     \<lparr>path_exists = (\<lambda>p w. map_of (local_files w) p \<noteq> None),
      is_file = (\<lambda>p w. map_of (local_files w) p \<noteq> None),
      is_dir = (\<lambda>p w. False),
      stat_size = (\<lambda>p w. case map_of (local_files w) p of
                            None \<Rightarrow> Inl (OtherException ''FileNotFoundError'') | Some n \<Rightarrow> Inr n),
      mkdtemp = (\<lambda>pre w. (Inr [''tmp'', pre @ ''0''], w)),
      extractall = (\<lambda>z d w. (Inr (), w)),
      copytree = (\<lambda>a b w. (Inr (), w)),
      read_manifest = (\<lambda>p w. Inr ()),
      read_text = (\<lambda>p w. Inr []),
      write_text = (\<lambda>p t w. (Inr (), w)),
      walk_tree = (\<lambda>p w. local_tree w),
      write_zip = (\<lambda>out entries w. (Inr (), w\<lparr>local_files := (out, 1000 * length entries) # local_files w\<rparr>)),
      subprocess_run = (\<lambda>a cwd w. (Inr (), w)),
      time_time = (\<lambda>w. 1769688000),
      getenv = (\<lambda>n w. None),
      boto3_client = (\<lambda>service w. Inr ()),
      confirm_ask = (\<lambda>w. (Inr False, w)),
      input_line = (\<lambda>w. (Inr (), w))\<rparr>"

definition sim_env :: "sim_world env" where
  "sim_env = \<lparr>s3_client = sim_s3, sts_client = sim_sts, agentcore_client = sim_agentcore, host = sim_host\<rparr>"

text \<open>The same environment with a storage service that cannot be reached when the
  object metadata is requested.\<close>

definition unreachable_env :: "sim_world env" where
  "unreachable_env =
     sim_env\<lparr>s3_client := sim_s3\<lparr>head_object :=
       (\<lambda>b k w. (Inl (OtherException ''EndpointConnectionError''), w))\<rparr>\<rparr>"

text \<open>The same environment with object metadata the caller may not read.\<close>

definition denied_env :: "sim_world env" where
  "denied_env =
     sim_env\<lparr>s3_client := sim_s3\<lparr>head_object := (\<lambda>b k w. (Inl (ClientError ''403''), w))\<rparr>\<rparr>"

text \<open>The same environment with an identity service that refuses to issue credentials.\<close>

definition refusing_env :: "sim_world env" where
  "refusing_env =
     sim_env\<lparr>sts_client := sim_sts\<lparr>get_session_token := (\<lambda>d w. (Inl (ClientError ''AccessDenied''), w))\<rparr>\<rparr>"

text \<open>A browser object before any session, one whose session the service no longer
  knows, and one whose session is open in the simulated world.\<close>

definition fresh_browser :: browser_obj where
  "fresh_browser = \<lparr>browser_region = ''us-east-1'', browser_session = None, session_id = None\<rparr>"

definition stale_browser :: browser_obj where
  "stale_browser =
     \<lparr>browser_region = ''us-east-1'',
      browser_session = Some \<lparr>info_session_id = ''gone'', info_session_name = ''demo'',
                               info_region = ''us-east-1''\<rparr>,
      session_id = Some ''gone''\<rparr>"

definition sim_tree :: "node list" where
  "sim_tree =
     [File ''manifest.json'' ''{}'',
      File ''.env'' ''SECRET=1'',
      File ''popup.js'' ''main();'',
      File ''popup.js.map'' ''{}'',
      Dir ''icons'' [File ''icon16.png'' ''png''],
      Dir ''node_modules'' [Dir ''left-pad'' [File ''index.js'' ''pad'']],
      Dir ''.git'' [File ''HEAD'' ''ref'']]"


definition sim_state :: "sim_world st" where
  "sim_state =
     \<lparr>trace = [],
      world = \<lparr>my_buckets = [''demo-bucket''], foreign_buckets = [''taken''], stored_objects = [],
               local_files = [([''ext.zip''], 2048)], local_tree = sim_tree, open_sessions = []\<rparr>\<rparr>"





definition demo_manager :: s3_manager where
  "demo_manager = \<lparr>bucket_name = ''demo-bucket'', region = ''eu-west-1''\<rparr>"

definition taken_manager :: s3_manager where
  "taken_manager = \<lparr>bucket_name = ''taken'', region = ''eu-west-1''\<rparr>"

section \<open>Properties of the storage manager\<close>

lemma env_simps:
  "s3_client sim_env = sim_s3" "sts_client sim_env = sim_sts"
  "agentcore_client sim_env = sim_agentcore" "host sim_env = sim_host"
  "s3_client unreachable_env = sim_s3\<lparr>head_object := (\<lambda>b k w. (Inl (OtherException ''EndpointConnectionError''), w))\<rparr>"
  "host unreachable_env = sim_host"
  "s3_client denied_env = sim_s3\<lparr>head_object := (\<lambda>b k w. (Inl (ClientError ''403''), w))\<rparr>"
  "host denied_env = sim_host"
  "sts_client refusing_env = sim_sts\<lparr>get_session_token := (\<lambda>d w. (Inl (ClientError ''AccessDenied''), w))\<rparr>"
  by (simp_all add: sim_env_def unreachable_env_def denied_env_def refusing_env_def)

lemmas run_defs = sim_s3_def sim_sts_def sim_agentcore_def sim_host_def sim_state_def
  demo_manager_def net_def log_def local_op_def Let_def

lemma bucket_exists_ok:
  assumes "fst (head_bucket (s3_client c) (bucket_name m) (world s)) = Inr ()"
  shows "bucket_exists c m s =
    (Inr True, s\<lparr>trace := trace s @ [Net (HeadBucket (bucket_name m))],
                 world := snd (head_bucket (s3_client c) (bucket_name m) (world s))\<rparr>)"
  using assms by (simp add: bucket_exists_def net_def)

lemma bucket_exists_404:
  assumes "fst (head_bucket (s3_client c) (bucket_name m) (world s)) = Inl (ClientError ''404'')"
  shows "bucket_exists c m s =
    (Inr False, s\<lparr>trace := trace s @ [Net (HeadBucket (bucket_name m))],
                 world := snd (head_bucket (s3_client c) (bucket_name m) (world s))\<rparr>)"
  using assms by (simp add: bucket_exists_def net_def)

lemma create_bucket_owned:
  assumes "reported_as_owned c m (world s)"
  shows "fst (create_bucket c m s) = Inr True"
  using assms
  by (auto simp: reported_as_owned_def create_bucket_def bucket_exists_ok bucket_exists_404
      location_of_def net_def Let_def)

text \<open>
  Claim C2. Bucket creation is idempotent on a bucket the caller already owns: when the
  storage service reports the bucket as the caller's at both invocations (the existence
  check succeeds, or it answers 404 and the creation request is refused with
  \<open>BucketAlreadyOwnedByYou\<close>), \<open>create_bucket\<close> returns \<open>True\<close> the first time and
  \<open>True\<close> again when invoked on the state the first invocation left; the "already owned"
  answer is a success, not an error.
\<close>

theorem create_bucket_idempotent:
  assumes "reported_as_owned c m (world s)"
    and "reported_as_owned c m (world (snd (create_bucket c m s)))"
  shows "fst (create_bucket c m s) = Inr True \<and>
         fst (create_bucket c m (snd (create_bucket c m s))) = Inr True"
  using assms by (simp add: create_bucket_owned)

theorem create_bucket_idempotent_witness:
  "reported_as_owned sim_env demo_manager (world sim_state) \<and>
   fst (create_bucket sim_env demo_manager sim_state) = Inr True \<and>
   fst (create_bucket sim_env demo_manager (snd (create_bucket sim_env demo_manager sim_state))) = Inr True \<and>
   calls (trace (snd (create_bucket sim_env demo_manager (snd (create_bucket sim_env demo_manager sim_state)))))
     = [HeadBucket ''demo-bucket'', HeadBucket ''demo-bucket'']"
proof -
  have a: "reported_as_owned sim_env demo_manager (world sim_state)"
    by (simp add: reported_as_owned_def env_simps sim_s3_def demo_manager_def sim_state_def)
  have b: "reported_as_owned sim_env demo_manager (world (snd (create_bucket sim_env demo_manager sim_state)))"
    by (simp add: reported_as_owned_def env_simps sim_s3_def demo_manager_def sim_state_def
        create_bucket_def bucket_exists_def net_def)
  have c: "calls (trace (snd (create_bucket sim_env demo_manager (snd (create_bucket sim_env demo_manager sim_state)))))
     = [HeadBucket ''demo-bucket'', HeadBucket ''demo-bucket'']"
    by (simp add: env_simps sim_s3_def demo_manager_def sim_state_def
        create_bucket_def bucket_exists_def net_def)
  from create_bucket_idempotent [OF a b] a c show ?thesis by simp
qed

text \<open>
  Claim C9. When the existence check is answered with access denied (403),
  \<open>bucket_exists\<close> returns \<open>True\<close>, and \<open>create_bucket\<close> returns \<open>True\<close> having
  attempted the existence check only: no creation request is sent.
\<close>

theorem access_denied_counts_as_existing:
  assumes "fst (head_bucket (s3_client c) (bucket_name m) (world s)) = Inl (ClientError ''403'')"
  shows "fst (bucket_exists c m s) = Inr True \<and>
         fst (create_bucket c m s) = Inr True \<and>
         trace (snd (create_bucket c m s)) = trace s @ [Net (HeadBucket (bucket_name m))]"
  using assms by (simp add: create_bucket_def bucket_exists_def net_def)

theorem access_denied_counts_as_existing_witness:
  "fst (head_bucket (s3_client sim_env) (bucket_name taken_manager) (world sim_state)) = Inl (ClientError ''403'') \<and>
   fst (bucket_exists sim_env taken_manager sim_state) = Inr True \<and>
   fst (create_bucket sim_env taken_manager sim_state) = Inr True \<and>
   trace (snd (create_bucket sim_env taken_manager sim_state)) = [Net (HeadBucket ''taken'')]"
proof -
  have a: "fst (head_bucket (s3_client sim_env) (bucket_name taken_manager) (world sim_state)) = Inl (ClientError ''403'')"
    by (simp add: env_simps sim_s3_def taken_manager_def sim_state_def)
  from access_denied_counts_as_existing [OF a] a show ?thesis
    by (simp add: taken_manager_def sim_state_def)
qed

lemma verify_access_raises:
  assumes "fst (verify_access c uri s) = Inl e"
  shows "\<not> (\<exists>code. e = ClientError code)"
  using assms by (auto simp: verify_access_def net_def split: if_splits prod.splits sum.splits exn.splits)

lemma setup_and_upload_after_upload:
  assumes "create_bucket c m s = (Inr True, s1)"
    and "upload_extension c m p None s1 = (Inr uri, s2)"
  shows "fst (setup_and_upload c m p s) \<noteq> Inr None \<and>
         (\<forall>b. fst (verify_access c uri s2) = Inr b \<longrightarrow> fst (setup_and_upload c m p s) = Inr (Some uri)) \<and>
         (\<forall>e. fst (verify_access c uri s2) = Inl e \<longrightarrow>
              fst (setup_and_upload c m p s) = Inl e \<and> \<not> (\<exists>code. e = ClientError code))"
  using assms verify_access_raises [of c uri s2]
  by (auto simp: setup_and_upload_def split: prod.splits sum.splits)

text \<open>
  Claim C10, as amended. Once bucket creation has returned \<open>True\<close> and the upload has
  returned its URI, \<open>setup_and_upload\<close> never returns \<open>None\<close>; whenever the
  verification step returns, with \<open>True\<close> or with \<open>False\<close>, the result is the URI of
  the upload; and when the verification step raises, the exception is not a
  \<open>ClientError\<close> and it leaves \<open>setup_and_upload\<close> as it is.
\<close>

theorem setup_and_upload_verification_nonfatal:
  assumes "fst (create_bucket c m s) = Inr True"
    and "fst (upload_extension c m p None (snd (create_bucket c m s))) = Inr uri"
  shows "fst (setup_and_upload c m p s) \<noteq> Inr None \<and>
         (\<forall>b. fst (verify_access c uri (snd (upload_extension c m p None (snd (create_bucket c m s))))) = Inr b
              \<longrightarrow> fst (setup_and_upload c m p s) = Inr (Some uri)) \<and>
         (\<forall>e. fst (verify_access c uri (snd (upload_extension c m p None (snd (create_bucket c m s))))) = Inl e
              \<longrightarrow> fst (setup_and_upload c m p s) = Inl e \<and> \<not> (\<exists>code. e = ClientError code))"
  using setup_and_upload_after_upload
    [of c m s "snd (create_bucket c m s)" p uri
        "snd (upload_extension c m p None (snd (create_bucket c m s)))"] assms
  by (metis prod.collapse)

theorem setup_and_upload_verification_nonfatal_witness:
  "fst (create_bucket denied_env demo_manager sim_state) = Inr True \<and>
   fst (upload_extension denied_env demo_manager [''ext.zip''] None
          (snd (create_bucket denied_env demo_manager sim_state)))
     = Inr ''s3://demo-bucket/extensions/ext.zip'' \<and>
   fst (verify_access denied_env ''s3://demo-bucket/extensions/ext.zip''
          (snd (upload_extension denied_env demo_manager [''ext.zip''] None
             (snd (create_bucket denied_env demo_manager sim_state))))) = Inr False \<and>
   fst (setup_and_upload denied_env demo_manager [''ext.zip''] sim_state)
     = Inr (Some ''s3://demo-bucket/extensions/ext.zip'')"
proof -
  have a: "fst (create_bucket denied_env demo_manager sim_state) = Inr True"
    by (simp add: env_simps run_defs create_bucket_def bucket_exists_def)
  have b: "fst (upload_extension denied_env demo_manager [''ext.zip''] None
          (snd (create_bucket denied_env demo_manager sim_state)))
     = Inr ''s3://demo-bucket/extensions/ext.zip''"
    by (simp add: env_simps run_defs create_bucket_def bucket_exists_def
        upload_extension_def path_name_def s3_uri_of_def)
  have v: "fst (verify_access denied_env ''s3://demo-bucket/extensions/ext.zip''
          (snd (upload_extension denied_env demo_manager [''ext.zip''] None
             (snd (create_bucket denied_env demo_manager sim_state))))) = Inr False"
    by (simp add: env_simps run_defs verify_access_def startswith_def split_bucket_key_def)
  from setup_and_upload_verification_nonfatal [OF a b] a b v show ?thesis by blast
qed

text \<open>
  Claim C10, as stated, fails when the metadata request raises an exception that is not a
  \<open>ClientError\<close>: creation and upload have succeeded, and \<open>setup_and_upload\<close> raises
  instead of returning the URI.
\<close>

theorem setup_and_upload_verification_counterexample:
  "fst (create_bucket unreachable_env demo_manager sim_state) = Inr True \<and>
   fst (upload_extension unreachable_env demo_manager [''ext.zip''] None
          (snd (create_bucket unreachable_env demo_manager sim_state)))
     = Inr ''s3://demo-bucket/extensions/ext.zip'' \<and>
   fst (setup_and_upload unreachable_env demo_manager [''ext.zip''] sim_state)
     = Inl (OtherException ''EndpointConnectionError'')"
  by (simp add: env_simps run_defs setup_and_upload_def create_bucket_def bucket_exists_def
      upload_extension_def verify_access_def path_name_def s3_uri_of_def startswith_def
      split_bucket_key_def)







section \<open>Properties of the browser session manager\<close>






text \<open>
  Claim C7. Stopping is quiet: with no active session \<open>close_session\<close> changes nothing
  (no request, same object, same state) and returns normally; when the service refuses
  the stop request with an exception (the session does not exist or is closed already),
  \<open>close_session\<close> returns normally and leaves the object as it was; and after a
  successful stop no session is active, so stopping again changes nothing.
\<close>

theorem close_session_quiet:
  "(\<not> session_active b \<longrightarrow> close_session env b s = (Inr (), b, s)) \<and>
   (session_active b \<and> is_Exception e \<and>
    fst (stop_browser_session (agentcore_client env) (the (session_id b)) (world s)) = Inl e \<longrightarrow>
      fst (close_session env b s) = Inr () \<and> fst (snd (close_session env b s)) = b \<and>
      trace (snd (snd (close_session env b s))) = trace s @ [Net (StopBrowserSession (the (session_id b)))]) \<and>
   (session_active b \<and>
    fst (stop_browser_session (agentcore_client env) (the (session_id b)) (world s)) = Inr () \<longrightarrow>
      fst (close_session env b s) = Inr () \<and>
      \<not> session_active (fst (snd (close_session env b s))) \<and>
      close_session env (fst (snd (close_session env b s))) (snd (snd (close_session env b s))) =
        (Inr (), fst (snd (close_session env b s)), snd (snd (close_session env b s))))"
  by (auto simp: close_session_def session_active_def net_def)

theorem close_session_quiet_witness:
  "\<not> session_active fresh_browser \<and>
   close_session sim_env fresh_browser sim_state = (Inr (), fresh_browser, sim_state) \<and>
   session_active stale_browser \<and>
   fst (stop_browser_session (agentcore_client sim_env) (the (session_id stale_browser)) (world sim_state))
     = Inl (ClientError ''ResourceNotFoundException'') \<and>
   fst (close_session sim_env stale_browser sim_state) = Inr () \<and>
   fst (snd (close_session sim_env stale_browser sim_state)) = stale_browser \<and>
   trace (snd (snd (close_session sim_env stale_browser sim_state))) = [Net (StopBrowserSession ''gone'')] \<and>
   session_active (fst (snd (create_browser_session sim_env fresh_browser [] (Some ''demo'') sim_state))) \<and>
   calls (trace (snd (snd
     (close_session sim_env
        (fst (snd (close_session sim_env
           (fst (snd (create_browser_session sim_env fresh_browser [] (Some ''demo'') sim_state)))
           (snd (snd (create_browser_session sim_env fresh_browser [] (Some ''demo'') sim_state))))))
        (snd (snd (close_session sim_env
           (fst (snd (create_browser_session sim_env fresh_browser [] (Some ''demo'') sim_state)))
           (snd (snd (create_browser_session sim_env fresh_browser [] (Some ''demo'') sim_state)))))))))) =
     [StartBrowserSession ''aws.browser.v1'' ''demo'' 1800 [], StopBrowserSession ''session-1'']"
proof -
  let ?b1 = "fst (snd (create_browser_session sim_env fresh_browser [] (Some ''demo'') sim_state))"
  let ?s1 = "snd (snd (create_browser_session sim_env fresh_browser [] (Some ''demo'') sim_state))"
  have a: "\<not> session_active fresh_browser"
    by (simp add: session_active_def fresh_browser_def)
  have b: "session_active stale_browser"
    by (simp add: session_active_def stale_browser_def)
  have c: "fst (stop_browser_session (agentcore_client sim_env) (the (session_id stale_browser)) (world sim_state))
     = Inl (ClientError ''ResourceNotFoundException'')"
    by (simp add: env_simps run_defs stale_browser_def)
  have d: "is_Exception (ClientError ''ResourceNotFoundException'')" by simp
  have t: "trace sim_state = []" "the (session_id stale_browser) = ''gone''"
    by (simp_all add: sim_state_def stale_browser_def)
  have e: "session_active ?b1"
    by (simp add: env_simps run_defs create_browser_session_def session_active_def fresh_browser_def)
  have f: "fst (stop_browser_session (agentcore_client sim_env) (the (session_id ?b1)) (world ?s1)) = Inr ()"
    by (simp add: env_simps run_defs create_browser_session_def fresh_browser_def)
  have g: "calls (trace (snd (snd (close_session sim_env ?b1 ?s1)))) =
     [StartBrowserSession ''aws.browser.v1'' ''demo'' 1800 [], StopBrowserSession ''session-1'']"
    by (simp add: env_simps run_defs create_browser_session_def close_session_def session_active_def
        fresh_browser_def)
  from close_session_quiet [where b = fresh_browser and env = sim_env and s = sim_state] a
  have 1: "close_session sim_env fresh_browser sim_state = (Inr (), fresh_browser, sim_state)"
    by blast
  from close_session_quiet [where b = stale_browser and e = "ClientError ''ResourceNotFoundException''"
      and env = sim_env and s = sim_state] b c d
  have 2: "fst (close_session sim_env stale_browser sim_state) = Inr () \<and>
     fst (snd (close_session sim_env stale_browser sim_state)) = stale_browser \<and>
     trace (snd (snd (close_session sim_env stale_browser sim_state))) =
       trace sim_state @ [Net (StopBrowserSession (the (session_id stale_browser)))]"
    by blast
  from close_session_quiet [where b = ?b1 and env = sim_env and s = ?s1] e f
  have 3: "close_session sim_env (fst (snd (close_session sim_env ?b1 ?s1)))
             (snd (snd (close_session sim_env ?b1 ?s1))) =
           (Inr (), fst (snd (close_session sim_env ?b1 ?s1)), snd (snd (close_session sim_env ?b1 ?s1)))"
    by blast
  from 1 2 a b c t e g show ?thesis by (simp add: 3)
qed

section \<open>Properties of credential issuance\<close>

text \<open>
  Claim C8, as amended. \<open>get_temporary_credentials\<close> sends one request with the given
  duration. On success it returns the access key, the secret key and the session token
  of the answer, and nothing else: the expiry is not returned. When the request fails,
  the same exception reaches the caller, after that one request.
\<close>

theorem credentials_without_expiry:
  "(fst (get_session_token (sts_client env) duration (world s)) = Inr cr \<longrightarrow>
      fst (get_temporary_credentials env duration s) =
        Inr [(''AccessKeyId'', AccessKeyId cr), (''SecretAccessKey'', SecretAccessKey cr),
             (''SessionToken'', SessionToken cr)]) \<and>
   (fst (get_session_token (sts_client env) duration (world s)) = Inl e \<longrightarrow>
      fst (get_temporary_credentials env duration s) = Inl e) \<and>
   trace (snd (get_temporary_credentials env duration s)) = trace s @ [Net (GetSessionToken duration)]"
  by (auto simp: get_temporary_credentials_def net_def split: sum.splits)

theorem credentials_without_expiry_witness:
  "fst (get_session_token (sts_client sim_env) 900 (world sim_state)) =
     Inr \<lparr>AccessKeyId = ''ASIAEXAMPLE'', SecretAccessKey = ''secret'', SessionToken = ''token'',
          Expiration = ''2026-01-29T13:00:00Z''\<rparr> \<and>
   fst (get_temporary_credentials sim_env 900 sim_state) =
     Inr [(''AccessKeyId'', ''ASIAEXAMPLE''), (''SecretAccessKey'', ''secret''), (''SessionToken'', ''token'')] \<and>
   fst (get_session_token (sts_client refusing_env) 900 (world sim_state)) = Inl (ClientError ''AccessDenied'') \<and>
   fst (get_temporary_credentials refusing_env 900 sim_state) = Inl (ClientError ''AccessDenied'') \<and>
   trace (snd (get_temporary_credentials refusing_env 900 sim_state)) = [Net (GetSessionToken 900)]"
proof -
  have a: "fst (get_session_token (sts_client sim_env) 900 (world sim_state)) =
     Inr \<lparr>AccessKeyId = ''ASIAEXAMPLE'', SecretAccessKey = ''secret'', SessionToken = ''token'',
          Expiration = ''2026-01-29T13:00:00Z''\<rparr>"
    by (simp add: env_simps run_defs)
  have b: "fst (get_session_token (sts_client refusing_env) 900 (world sim_state)) = Inl (ClientError ''AccessDenied'')"
    by (simp add: env_simps run_defs)
  have t: "trace sim_state = []" by (simp add: sim_state_def)
  from credentials_without_expiry [where env = sim_env and duration = 900 and s = sim_state
      and cr = "\<lparr>AccessKeyId = ''ASIAEXAMPLE'', SecretAccessKey = ''secret'', SessionToken = ''token'',
          Expiration = ''2026-01-29T13:00:00Z''\<rparr>"] a
  have 1: "fst (get_temporary_credentials sim_env 900 sim_state) =
     Inr [(''AccessKeyId'', ''ASIAEXAMPLE''), (''SecretAccessKey'', ''secret''), (''SessionToken'', ''token'')]"
    by simp
  from credentials_without_expiry [where env = refusing_env and duration = 900 and s = sim_state
      and e = "ClientError ''AccessDenied''"] b t
  have 2: "fst (get_temporary_credentials refusing_env 900 sim_state) = Inl (ClientError ''AccessDenied'') \<and>
     trace (snd (get_temporary_credentials refusing_env 900 sim_state)) = [Net (GetSessionToken 900)]"
    by simp
  from 1 2 a b show ?thesis by simp
qed

text \<open>
  Claim C8, as stated, fails on the expiry: the service answers with one, and the
  returned dictionary has three keys, none of them the expiry, and no value equal to it.
\<close>

theorem credentials_without_expiry_counterexample:
  "Expiration (projr (fst (get_session_token (sts_client sim_env) 3600 (world sim_state))))
     = ''2026-01-29T13:00:00Z'' \<and>
   map fst (projr (fst (get_temporary_credentials sim_env 3600 sim_state)))
     = [''AccessKeyId'', ''SecretAccessKey'', ''SessionToken''] \<and>
   map_of (projr (fst (get_temporary_credentials sim_env 3600 sim_state))) ''Expiration'' = None \<and>
   ''2026-01-29T13:00:00Z'' \<notin> snd ` set (projr (fst (get_temporary_credentials sim_env 3600 sim_state)))"
  by (simp add: env_simps run_defs get_temporary_credentials_def)

section \<open>Properties of packaging\<close>






lemma is_file_at_deeper:
  "p \<noteq> [] \<Longrightarrow> is_file_at ns (n # p) c \<longleftrightarrow> (\<exists>ch. Dir n ch \<in> set ns \<and> is_file_at ch p c)"
proof (cases p)
  case Nil
  assume "p \<noteq> []" with Nil show ?thesis by simp
next
  case (Cons m q)
  show ?thesis
    unfolding Cons
    by (induction ns) (auto split: node.splits)
qed

lemma is_file_at_Nil [simp]: "\<not> is_file_at [] p c"
proof (cases p)
  case Nil
  then show ?thesis by simp
next
  case (Cons m q)
  then show ?thesis by (cases q) auto
qed
















section \<open>Properties of the orchestrator\<close>

text \<open>The functions below the stages enter no stage: they leave the list of stages
  entered as it is. Each stage adds its own marker and nothing else.\<close>

lemma entered_append [simp]: "entered (xs @ ys) = entered xs @ entered ys"
  by (induction xs rule: entered.induct) auto

lemma net_entered [simp]: "entered (trace (snd (net c f s))) = entered (trace s)"
  by (simp add: net_def)

lemma local_op_entered [simp]: "entered (trace (snd (local_op f s))) = entered (trace s)"
  by (simp add: local_op_def)

lemma bucket_exists_entered [simp]:
  "entered (trace (snd (bucket_exists c m s))) = entered (trace s)"
  by (simp add: bucket_exists_def case_prod_beta split: sum.splits exn.splits)

lemma create_bucket_entered [simp]:
  "entered (trace (snd (create_bucket c m s))) = entered (trace s)"
  by (simp add: create_bucket_def Let_def case_prod_beta split: sum.splits exn.splits bool.splits)

lemma upload_extension_entered [simp]:
  "entered (trace (snd (upload_extension c m p k s))) = entered (trace s)"
  by (simp add: upload_extension_def Let_def log_def case_prod_beta split: sum.splits)

lemma verify_access_entered [simp]:
  "entered (trace (snd (verify_access c u s))) = entered (trace s)"
  by (simp add: verify_access_def log_def case_prod_beta split: sum.splits exn.splits)

lemma setup_and_upload_entered [simp]:
  "entered (trace (snd (setup_and_upload c m p s))) = entered (trace s)"
  by (simp add: setup_and_upload_def case_prod_beta split: sum.splits bool.splits)

lemma S3Manager_init_entered [simp]:
  "entered (trace (snd (S3Manager_init env b r0 s))) = entered (trace s)"
  by (simp add: S3Manager_init_def Let_def split: sum.splits)

lemma list_extensions_entered [simp]:
  "entered (trace (snd (list_extensions c m s))) = entered (trace s)"
  by (simp add: list_extensions_def case_prod_beta split: sum.splits exn.splits option.splits)

lemma delete_keys_entered [simp]:
  "entered (trace (snd (delete_keys c m keys s))) = entered (trace s)"
  by (induction keys arbitrary: s) (simp_all add: case_prod_beta split: sum.splits)

lemma cleanup_old_extensions_entered [simp]:
  "entered (trace (snd (cleanup_old_extensions c m k s))) = entered (trace s)"
  by (simp add: cleanup_old_extensions_def case_prod_beta split: sum.splits)

lemma BrowserWithExtension_init_entered [simp]:
  "entered (trace (snd (BrowserWithExtension_init env r0 s))) = entered (trace s)"
  by (simp add: BrowserWithExtension_init_def Let_def split: sum.splits)

lemma create_browser_session_entered [simp]:
  "entered (trace (snd (snd (create_browser_session env b uris n s)))) = entered (trace s)"
  by (simp add: create_browser_session_def Let_def case_prod_beta split: sum.splits)

lemma close_session_entered [simp]:
  "entered (trace (snd (snd (close_session env b s)))) = entered (trace s)"
  by (simp add: close_session_def case_prod_beta split: sum.splits)

lemma check_iam_permissions_entered [simp]:
  "entered (trace (snd (check_iam_permissions env s))) = entered (trace s)"
  by (simp add: check_iam_permissions_def case_prod_beta split: sum.splits)

lemma ExtensionSetup_init_entered [simp]:
  "entered (trace (snd (ExtensionSetup_init env wd s))) = entered (trace s)"
  by (simp add: ExtensionSetup_init_def case_prod_beta split: sum.splits option.splits)

lemma get_temporary_credentials_entered [simp]:
  "entered (trace (snd (get_temporary_credentials env d s))) = entered (trace s)"
  by (simp add: get_temporary_credentials_def case_prod_beta split: sum.splits)

lemma run_process_entered [simp]:
  "entered (trace (snd (run_process env a cwd s))) = entered (trace s)"
  by (simp add: run_process_def log_def)

lemma download_extension_from_github_entered [simp]:
  "entered (trace (snd (download_extension_from_github env self s))) = entered (trace s)"
  by (simp add: download_extension_from_github_def Let_def case_prod_beta split: sum.splits)

lemma use_existing_extension_entered [simp]:
  "entered (trace (snd (use_existing_extension env self p s))) = entered (trace s)"
  by (simp add: use_existing_extension_def case_prod_beta split: sum.splits)

lemma rewrite_file_entered [simp]:
  "entered (trace (snd (rewrite_file env p f s))) = entered (trace s)"
  by (simp add: rewrite_file_def split: sum.splits)

lemma configure_extension_credentials_entered [simp]:
  "entered (trace (snd (configure_extension_credentials env self cr s))) = entered (trace s)"
  by (simp add: configure_extension_credentials_def Let_def case_prod_beta split: sum.splits)

lemma setup_package_extension_entered [simp]:
  "entered (trace (snd (setup_package_extension env self out s))) = entered (trace s)"
  by (simp add: setup_package_extension_def Let_def case_prod_beta split: sum.splits)

lemma setup_prepare_extension_entered [simp]:
  "entered (trace (snd (setup_prepare_extension env self ex skip s))) = entered (trace s)"
  by (simp add: setup_prepare_extension_def case_prod_beta split: sum.splits option.splits)

lemma prepare_each_entered [simp]:
  "entered (trace (snd (snd (prepare_each env exts self s)))) = entered (trace s)"
  by (induction exts arbitrary: self s) (simp_all add: case_prod_beta split: sum.splits)

lemma upload_each_entered [simp]:
  "entered (trace (snd (snd (upload_each env m zips self s)))) = entered (trace s)"
  by (induction zips arbitrary: self s) (simp_all add: case_prod_beta split: sum.splits option.splits)

lemma except_False_state [simp]: "snd (snd (except_False r)) = snd (snd r)"
  by (simp add: except_False_def case_prod_beta split: sum.splits)













lemma run_except_Inr [simp]: "run_except (Inr code) = code"
  by (simp add: run_except_def)



















lemma calls_append [simp]: "calls (xs @ ys) = calls xs @ calls ys"
  by (induction xs rule: calls.induct) auto






end
